theory Spec2Isabelle
  imports Main "HOL-Library.AList"
begin

section \<open>Python values, clocks and exceptions\<close>

text \<open>
  The module \<^verbatim>\<open>backend/auth.py\<close> holds an in-memory one-time-passcode store, two
  functions that issue and validate signed session tokens, and a resolver that turns a
  token into a user document. Its inputs from the outside world are explicit parameters of
  the model: the clock (\<^verbatim>\<open>datetime.utcnow()\<close>), the random source
  (\<^verbatim>\<open>random.choices\<close>), the process environment (\<^verbatim>\<open>os.getenv\<close>) and
  the user database.

  A \<^verbatim>\<open>datetime\<close> is the number of microseconds since 1970-01-01T00:00:00 (the
  resolution of Python's type), a \<^verbatim>\<open>timedelta\<close> a number of microseconds.
  \<^verbatim>\<open>datetime + timedelta\<close> raises \<^verbatim>\<open>OverflowError\<close> outside the years 1 to 9999.
\<close>

type_synonym datetime = int
type_synonym timedelta = int

datatype exn =
    JWTError string
  | ExpiredSignatureError string
  | JWTClaimsError string
  | JWSError string
  | TypeError string
  | ValueError string
  | OverflowError string

text \<open>
  Python values as they occur in claims, token payloads and user documents. A dictionary
  is an association list in insertion order (\<^verbatim>\<open>d[k] = v\<close> is
  \<^const>\<open>AList.update\<close>, \<^verbatim>\<open>d.get(k)\<close> is \<^const>\<open>map_of\<close>). Floats and tuples are
  left out, and the keys of a dictionary are strings.
\<close>

datatype pyval =
    PNone
  | PBool bool
  | PInt int
  | PStr string
  | PDatetime datetime
  | PList "pyval list"
  | PDict "(string \<times> pyval) list"

type_synonym pydict = "(string \<times> pyval) list"

text \<open>The truth value of an object in \<^verbatim>\<open>if x:\<close> and \<^verbatim>\<open>not x\<close>.\<close>

fun truthy :: "pyval \<Rightarrow> bool" where
  "truthy PNone = False"
| "truthy (PBool b) = b"
| "truthy (PInt i) = (i \<noteq> 0)"
| "truthy (PStr s) = (s \<noteq> [])"
| "truthy (PDatetime t) = True"
| "truthy (PList xs) = (xs \<noteq> [])"
| "truthy (PDict kvs) = (kvs \<noteq> [])"

definition datetime_min :: datetime where
  "datetime_min = - 62135596800000000"

definition datetime_max :: datetime where
  "datetime_max = 253402300799999999"

definition valid_datetime :: "datetime \<Rightarrow> bool" where
  "valid_datetime t = (datetime_min \<le> t \<and> t \<le> datetime_max)"

definition datetime_add :: "datetime \<Rightarrow> timedelta \<Rightarrow> exn + datetime" where
  "datetime_add t d =
     (if valid_datetime (t + d) then Inr (t + d)
      else Inl (OverflowError ''date value out of range''))"

definition minutes :: "int \<Rightarrow> timedelta" where
  "minutes m = m * 60000000"

section \<open>The one-time-passcode store\<close>

text \<open>
  \<^verbatim>\<open>self.store\<close> is a dictionary from the e-mail address to
  \<^verbatim>\<open>{"otp": str, "expires": datetime}\<close>.
\<close>

record otp_entry =
  otp :: string
  expires :: datetime

type_synonym otp_store = "string \<rightharpoonup> otp_entry"

definition digits :: string where
  "digits = ''0123456789''"

text \<open>
  \<^verbatim>\<open>random.choices(population, k=k)\<close> is
  \<^verbatim>\<open>[population[floor(random() * n)] for i in range(k)]\<close> with \<open>n\<close> the size of
  the population. The random source is the function \<open>rng\<close>: its \<open>i\<close>-th draw, reduced
  modulo \<open>n\<close>, is the index \<^verbatim>\<open>floor(random() * n)\<close> of the \<open>i\<close>-th call.
\<close>

definition random_choices :: "(nat \<Rightarrow> nat) \<Rightarrow> 'a list \<Rightarrow> nat \<Rightarrow> 'a list" where
  "random_choices rng population k =
     map (\<lambda>i. population ! (rng i mod length population)) [0..<k]"

definition generate_otp ::
  "(nat \<Rightarrow> nat) \<Rightarrow> datetime \<Rightarrow> otp_store \<Rightarrow> string \<Rightarrow> exn + (string \<times> otp_store)" where
  "generate_otp rng now store email =
     (let code = random_choices rng digits 6 in
      case datetime_add now (minutes 5) of
        Inl e \<Rightarrow> Inl e
      | Inr exp \<Rightarrow> Inr (code, store(email \<mapsto> \<lparr>otp = code, expires = exp\<rparr>)))"

definition verify_otp ::
  "datetime \<Rightarrow> otp_store \<Rightarrow> string \<Rightarrow> string \<Rightarrow> bool \<times> otp_store" where
  "verify_otp now store email code =
     (case store email of
        None \<Rightarrow> (False, store)
      | Some stored \<Rightarrow>
          if now > expires stored then (False, store(email := None))
          else if otp stored = code then (True, store(email := None))
          else (False, store))"

text \<open>A run of verification calls on the store, each with its own clock reading.\<close>

fun verify_calls ::
  "otp_store \<Rightarrow> (datetime \<times> string \<times> string) list \<Rightarrow> bool list \<times> otp_store" where
  "verify_calls store [] = ([], store)"
| "verify_calls store ((t, email, code) # calls) =
     (let (r, store') = verify_otp t store email code;
          (rs, store'') = verify_calls store' calls
      in (r # rs, store''))"

section \<open>The token library\<close>

text \<open>
  \<^verbatim>\<open>jwt.encode\<close> and \<^verbatim>\<open>jwt.decode\<close> belong to the python-jose package, which
  is not part of the repository. They are modelled after that package
  (\<^verbatim>\<open>jose/jwt.py\<close>, \<^verbatim>\<open>jose/jws.py\<close>) for a plain string secret and the HMAC
  algorithms, with the call defaults of \<^verbatim>\<open>auth.py\<close>: no audience, issuer, subject or
  access token, no leeway, every \<^verbatim>\<open>verify_*\<close> option on.

  The wire format (base64url over JSON text) and the computation of HMAC-SHA-256 are
  abstracted. A token string is represented by what \<^verbatim>\<open>jws._load\<close> makes of it:
  either the \<^verbatim>\<open>JWSError\<close> it raises, or the decoded header, the decoded payload
  (\<open>None\<close> when it is not JSON text) and the signature. A signature is either the MAC
  of a header and payload under a key and a hash algorithm, or any other byte string; a
  byte string that is not such a MAC never verifies. Two things are outside this
  representation: the text of the segments (two texts that decode to the same bytes are
  the same token here), and strings on which loading raises something other than
  \<^verbatim>\<open>JWSError\<close>, such as a string that cannot be encoded as UTF-8. The secret is
  taken as the HMAC key as it is.
\<close>

datatype signature =
    Mac string string pydict "pyval option"
  | Forged "nat list"

datatype token =
    NotAToken string
  | JWS pydict "pyval option" signature

text \<open>\<^verbatim>\<open>json.dumps\<close> raises \<^verbatim>\<open>TypeError\<close> on a \<^verbatim>\<open>datetime\<close>.\<close>

fun json_serializable :: "pyval \<Rightarrow> bool" where
  "json_serializable (PDatetime t) = False"
| "json_serializable (PList xs) = list_all json_serializable xs"
| "json_serializable (PDict kvs) = list_all (\<lambda>kv. json_serializable (snd kv)) kvs"
| "json_serializable v = True"

text \<open>
  \<^verbatim>\<open>int(x)\<close>: an integer or a boolean converts, a string converts when it is a
  decimal literal (surrounding whitespace, a sign, single underscores between digits),
  and raises \<^verbatim>\<open>ValueError\<close> otherwise, also when the literal has more than 4300
  digits (the limit of CPython 3.11); any other object raises \<^verbatim>\<open>TypeError\<close>. A
  \<open>string\<close> holds the bytes of the text: the conversion is exact for ASCII text, and the
  whitespace and digits that Python accepts beyond ASCII are not modelled.
\<close>

definition is_space :: "char \<Rightarrow> bool" where
  "is_space c = (c \<in> set [CHR 0x09, CHR 0x0A, CHR 0x0B, CHR 0x0C, CHR 0x0D,
                           CHR 0x1C, CHR 0x1D, CHR 0x1E, CHR 0x1F, CHR 0x20])"

definition strip :: "string \<Rightarrow> string" where
  "strip s = rev (dropWhile is_space (rev (dropWhile is_space s)))"

definition is_digit :: "char \<Rightarrow> bool" where
  "is_digit c = (c \<in> set digits)"

definition digit_value :: "char \<Rightarrow> nat" where
  "digit_value c = of_char c - 48"

fun digits_value :: "nat \<Rightarrow> string \<Rightarrow> nat option" where
  "digits_value acc [] = Some acc"
| "digits_value acc [c] =
     (if is_digit c then Some (10 * acc + digit_value c) else None)"
| "digits_value acc (c # d # cs) =
     (if is_digit c then digits_value (10 * acc + digit_value c) (d # cs)
      else if c = CHR ''_'' \<and> is_digit d then digits_value (10 * acc + digit_value d) cs
      else None)"

definition max_str_digits :: nat where
  "max_str_digits = 4300"

definition int_of_str :: "string \<Rightarrow> int option" where
  "int_of_str s =
     (let t = strip s;
          (sign, u) = (case t of
                         c # r \<Rightarrow> if c = CHR ''-'' then (- 1, r)
                                  else if c = CHR ''+'' then (1, r) else (1, t)
                       | [] \<Rightarrow> (1, t))
      in if length (filter is_digit u) > max_str_digits then None
         else case u of
           [] \<Rightarrow> None
         | c # cs \<Rightarrow>
             if is_digit c then map_option (\<lambda>n. sign * int n) (digits_value (digit_value c) cs)
             else None)"

fun py_int :: "pyval \<Rightarrow> exn + int" where
  "py_int (PInt i) = Inr i"
| "py_int (PBool b) = Inr (if b then 1 else 0)"
| "py_int (PStr s) =
     (case int_of_str s of
        Some i \<Rightarrow> Inr i
      | None \<Rightarrow> Inl (ValueError ''invalid literal for int() with base 10''))"
| "py_int v = Inl (TypeError ''int() argument must be a string or a real number'')"

text \<open>\<^verbatim>\<open>timegm(d.utctimetuple())\<close>: the whole seconds of a \<^verbatim>\<open>datetime\<close>.\<close>

definition timegm :: "datetime \<Rightarrow> int" where
  "timegm d = d div 1000000"

definition HMAC_ALGORITHMS :: "string list" where
  "HMAC_ALGORITHMS = [''HS256'', ''HS384'', ''HS512'']"

definition jws_sign :: "pydict \<Rightarrow> string \<Rightarrow> string \<Rightarrow> exn + token" where
  "jws_sign payload key algorithm =
     (if algorithm \<notin> set HMAC_ALGORITHMS
      then Inl (JWSError ''Algorithm not supported.'')
      else if \<not> json_serializable (PDict payload)
      then Inl (TypeError ''Object of type datetime is not JSON serializable'')
      else
        let header = [(''alg'', PStr algorithm), (''typ'', PStr ''JWT'')];
            body = Some (PDict payload)
        in Inr (JWS header body (Mac algorithm key header body)))"

definition convert_time_claim :: "string \<Rightarrow> pydict \<Rightarrow> pydict" where
  "convert_time_claim time_claim claims =
     (case map_of claims time_claim of
        Some (PDatetime d) \<Rightarrow> AList.update time_claim (PInt (timegm d)) claims
      | _ \<Rightarrow> claims)"

definition jwt_encode :: "pydict \<Rightarrow> string \<Rightarrow> string \<Rightarrow> exn + token" where
  "jwt_encode claims key algorithm =
     jws_sign (fold convert_time_claim [''exp'', ''iat'', ''nbf''] claims) key algorithm"

definition jws_verify :: "token \<Rightarrow> string \<Rightarrow> string list \<Rightarrow> exn + pyval option" where
  "jws_verify token key algorithms =
     (case token of
        NotAToken msg \<Rightarrow> Inl (JWSError msg)
      | JWS header payload sig \<Rightarrow>
          (case map_of header ''alg'' of
             None \<Rightarrow> Inl (JWSError ''No algorithm was specified in the JWS header.'')
           | Some alg \<Rightarrow>
               if \<not> truthy alg
               then Inl (JWSError ''No algorithm was specified in the JWS header.'')
               else if alg \<notin> set (map PStr algorithms)
               then Inl (JWSError ''The specified alg value is not allowed'')
               else
                 (case alg of
                    PStr a \<Rightarrow>
                      if a \<notin> set HMAC_ALGORITHMS
                      then Inl (JWSError ''Invalid or unsupported algorithm'')
                      else if sig = Mac a key header payload then Inr payload
                      else Inl (JWSError ''Signature verification failed.'')
                  | _ \<Rightarrow> Inl (JWSError ''Invalid or unsupported algorithm''))))"

definition validate_iat :: "pydict \<Rightarrow> exn + unit" where
  "validate_iat claims =
     (case map_of claims ''iat'' of
        None \<Rightarrow> Inr ()
      | Some v \<Rightarrow>
          (case py_int v of
             Inr i \<Rightarrow> Inr ()
           | Inl (ValueError m) \<Rightarrow> Inl (JWTClaimsError ''Issued At claim (iat) must be an integer.'')
           | Inl e \<Rightarrow> Inl e))"

definition validate_nbf :: "datetime \<Rightarrow> pydict \<Rightarrow> exn + unit" where
  "validate_nbf now claims =
     (case map_of claims ''nbf'' of
        None \<Rightarrow> Inr ()
      | Some v \<Rightarrow>
          (case py_int v of
             Inr nbf \<Rightarrow>
               if nbf > timegm now then Inl (JWTClaimsError ''The token is not yet valid (nbf)'')
               else Inr ()
           | Inl (ValueError m) \<Rightarrow> Inl (JWTClaimsError ''Not Before claim (nbf) must be an integer.'')
           | Inl e \<Rightarrow> Inl e))"

definition validate_exp :: "datetime \<Rightarrow> pydict \<Rightarrow> exn + unit" where
  "validate_exp now claims =
     (case map_of claims ''exp'' of
        None \<Rightarrow> Inr ()
      | Some v \<Rightarrow>
          (case py_int v of
             Inr exp \<Rightarrow>
               if exp < timegm now then Inl (ExpiredSignatureError ''Signature has expired.'')
               else Inr ()
           | Inl (ValueError m) \<Rightarrow> Inl (JWTClaimsError ''Expiration Time claim (exp) must be an integer.'')
           | Inl e \<Rightarrow> Inl e))"

fun is_str :: "pyval \<Rightarrow> bool" where
  "is_str (PStr s) = True"
| "is_str v = False"

definition validate_aud :: "pydict \<Rightarrow> pyval \<Rightarrow> exn + unit" where
  "validate_aud claims audience =
     (case map_of claims ''aud'' of
        None \<Rightarrow> Inr ()
      | Some a \<Rightarrow>
          (case (case a of PStr s \<Rightarrow> Some [a] | PList xs \<Rightarrow> Some xs | _ \<Rightarrow> None) of
             None \<Rightarrow> Inl (JWTClaimsError ''Invalid claim format in token'')
           | Some audience_claims \<Rightarrow>
               if \<not> list_all is_str audience_claims
               then Inl (JWTClaimsError ''Invalid claim format in token'')
               else if audience \<notin> set audience_claims
               then Inl (JWTClaimsError ''Invalid audience'')
               else Inr ()))"

definition validate_sub :: "pydict \<Rightarrow> exn + unit" where
  "validate_sub claims =
     (case map_of claims ''sub'' of
        None \<Rightarrow> Inr ()
      | Some v \<Rightarrow> if is_str v then Inr () else Inl (JWTClaimsError ''Subject must be a string.''))"

definition validate_jti :: "pydict \<Rightarrow> exn + unit" where
  "validate_jti claims =
     (case map_of claims ''jti'' of
        None \<Rightarrow> Inr ()
      | Some v \<Rightarrow> if is_str v then Inr () else Inl (JWTClaimsError ''JWT ID must be a string.''))"

definition validate_at_hash :: "pydict \<Rightarrow> exn + unit" where
  "validate_at_hash claims =
     (case map_of claims ''at_hash'' of
        None \<Rightarrow> Inr ()
      | Some v \<Rightarrow>
          Inl (JWTClaimsError ''No access_token provided to compare against at_hash claim.''))"

text \<open>
  The checks run in this order; the first exception raised ends the validation. The
  issuer check does nothing when no issuer is passed, as here.
\<close>

fun first_error :: "(exn + unit) list \<Rightarrow> exn + unit" where
  "first_error [] = Inr ()"
| "first_error (Inl e # rs) = Inl e"
| "first_error (Inr u # rs) = first_error rs"

definition validate_claims :: "datetime \<Rightarrow> pydict \<Rightarrow> exn + unit" where
  "validate_claims now claims =
     first_error
       [validate_iat claims, validate_nbf now claims, validate_exp now claims,
        validate_aud claims PNone, validate_sub claims, validate_jti claims,
        validate_at_hash claims]"

definition jwt_decode :: "datetime \<Rightarrow> token \<Rightarrow> string \<Rightarrow> string list \<Rightarrow> exn + pydict" where
  "jwt_decode now token key algorithms =
     (case jws_verify token key algorithms of
        Inl (JWSError msg) \<Rightarrow> Inl (JWTError msg)
      | Inl e \<Rightarrow> Inl e
      | Inr None \<Rightarrow> Inl (JWTError ''Invalid payload string'')
      | Inr (Some (PDict claims)) \<Rightarrow>
          (case validate_claims now claims of
             Inl e \<Rightarrow> Inl e
           | Inr u \<Rightarrow> Inr claims)
      | Inr (Some v) \<Rightarrow> Inl (JWTError ''Invalid payload string: must be a json object''))"

text \<open>
  \<^verbatim>\<open>except JWTError\<close> catches \<^verbatim>\<open>JWTError\<close> and its subclasses
  \<^verbatim>\<open>ExpiredSignatureError\<close> and \<^verbatim>\<open>JWTClaimsError\<close>.
\<close>

fun is_JWTError :: "exn \<Rightarrow> bool" where
  "is_JWTError (JWTError m) = True"
| "is_JWTError (ExpiredSignatureError m) = True"
| "is_JWTError (JWTClaimsError m) = True"
| "is_JWTError e = False"

section \<open>Session tokens\<close>

type_synonym environ = "string \<rightharpoonup> string"

definition getenv :: "environ \<Rightarrow> string \<Rightarrow> string \<Rightarrow> string" where
  "getenv env name fallback = (case env name of None \<Rightarrow> fallback | Some v \<Rightarrow> v)"

definition SECRET_KEY :: "environ \<Rightarrow> string" where
  "SECRET_KEY env = getenv env ''SECRET_KEY'' ''your-secret-key-change-in-production''"

definition ALGORITHM :: string where
  "ALGORITHM = ''HS256''"

definition ACCESS_TOKEN_EXPIRE_MINUTES :: int where
  "ACCESS_TOKEN_EXPIRE_MINUTES = 60 * 24 * 7"

text \<open>
  \<^verbatim>\<open>if expires_delta:\<close> tests the truth value of an
  \<^verbatim>\<open>Optional[timedelta]\<close>: \<^verbatim>\<open>None\<close> and the zero duration are false.
\<close>

definition timedelta_truthy :: "timedelta option \<Rightarrow> bool" where
  "timedelta_truthy expires_delta =
     (case expires_delta of None \<Rightarrow> False | Some d \<Rightarrow> d \<noteq> 0)"

definition create_access_token ::
  "environ \<Rightarrow> datetime \<Rightarrow> pydict \<Rightarrow> timedelta option \<Rightarrow> exn + token" where
  "create_access_token env now data expires_delta =
     (let to_encode = data in
      case (case expires_delta of
              Some d \<Rightarrow>
                if timedelta_truthy expires_delta then datetime_add now d
                else datetime_add now (minutes ACCESS_TOKEN_EXPIRE_MINUTES)
            | None \<Rightarrow> datetime_add now (minutes ACCESS_TOKEN_EXPIRE_MINUTES)) of
        Inl e \<Rightarrow> Inl e
      | Inr expire \<Rightarrow>
          jwt_encode (AList.update ''exp'' (PDatetime expire) to_encode) (SECRET_KEY env) ALGORITHM)"

definition verify_token :: "environ \<Rightarrow> datetime \<Rightarrow> token \<Rightarrow> exn + pydict option" where
  "verify_token env now token =
     (case jwt_decode now token (SECRET_KEY env) [ALGORITHM] of
        Inr payload \<Rightarrow> Inr (Some payload)
      | Inl e \<Rightarrow> if is_JWTError e then Inr None else Inl e)"

section \<open>Resolving the current user\<close>

text \<open>
  The database is the collaborator behind \<^verbatim>\<open>db.users.find_one\<close>: a query document
  is answered with a user document or with nothing. Every operation sent to the database
  is recorded, so that a run of \<^verbatim>\<open>get_current_user\<close> yields its result together
  with the operations it performed.
\<close>

datatype db_op =
    Find_one string pydict
  | Insert_one string pydict
  | Update_one string pydict pydict
  | Delete_one string pydict

record database =
  users_find_one :: "pydict \<Rightarrow> pydict option"

definition get_current_user ::
  "environ \<Rightarrow> datetime \<Rightarrow> database \<Rightarrow> token \<Rightarrow> exn + (pydict option \<times> db_op list)" where
  "get_current_user env now db token =
     (case verify_token env now token of
        Inl e \<Rightarrow> Inl e
      | Inr None \<Rightarrow> Inr (None, [])
      | Inr (Some payload) \<Rightarrow>
          if \<not> truthy (PDict payload) then Inr (None, [])
          else
            let user_id = (case map_of payload ''sub'' of None \<Rightarrow> PNone | Some v \<Rightarrow> v) in
            if \<not> truthy user_id then Inr (None, [])
            else
              let query = [(''_id'', user_id)] in
              Inr (users_find_one db query, [Find_one ''users'' query]))"

section \<open>The inputs on which the library model is exact\<close>






section \<open>Example inputs\<close>

text \<open>
  A user database with two documents, and the token that \<^verbatim>\<open>jwt.encode\<close> builds
  for a set of claims under the placeholder secret.
\<close>

definition example_users :: database where
  "example_users =
     \<lparr>users_find_one = (\<lambda>query.
        if query = [(''_id'', PStr '''')]
        then Some [(''_id'', PStr ''''), (''email'', PStr ''a@x.com'')]
        else if query = [(''_id'', PStr ''u1'')]
        then Some [(''_id'', PStr ''u1''), (''email'', PStr ''b@x.com'')]
        else None)\<rparr>"

definition example_header :: pydict where
  "example_header = [(''alg'', PStr ''HS256''), (''typ'', PStr ''JWT'')]"

definition example_token :: "pydict \<Rightarrow> token" where
  "example_token claims =
     JWS example_header (Some (PDict claims))
       (Mac ''HS256'' ''your-secret-key-change-in-production'' example_header (Some (PDict claims)))"

section \<open>Properties of the one-time-passcode store\<close>

lemma random_choices_length: "length (random_choices rng population k) = k"
  by (simp add: random_choices_def)

lemma random_choices_member:
  assumes "population \<noteq> []" and "c \<in> set (random_choices rng population k)"
  shows "c \<in> set population"
proof -
  from assms(2) obtain i where "c = population ! (rng i mod length population)"
    by (auto simp: random_choices_def)
  moreover have "rng i mod length population < length population"
    using assms(1) by simp
  ultimately show ?thesis by simp
qed

lemma verify_otp_absent:
  "store email = None \<Longrightarrow> verify_otp t store email code = (False, store)"
  by (simp add: verify_otp_def)

lemma verify_otp_keeps_absent:
  "store email = None \<Longrightarrow> snd (verify_otp t store email' code) email = None"
  by (auto simp: verify_otp_def split: option.splits)

lemma verify_calls_absent:
  "store email = None \<Longrightarrow>
     (\<forall>(call, r) \<in> set (zip calls (fst (verify_calls store calls))).
        fst (snd call) = email \<longrightarrow> \<not> r)
     \<and> snd (verify_calls store calls) email = None"
proof (induction calls arbitrary: store)
  case Nil
  then show ?case by simp
next
  case (Cons call calls)
  obtain t e c where call: "call = (t, e, c)" by (cases call) auto
  let ?s = "snd (verify_otp t store e c)"
  have absent: "?s email = None"
    using Cons.prems by (rule verify_otp_keeps_absent)
  have first: "e = email \<Longrightarrow> \<not> fst (verify_otp t store e c)"
    using Cons.prems by (simp add: verify_otp_absent)
  from Cons.IH [of ?s, OF absent] first show ?case
    by (auto simp: call split: prod.splits)
qed

lemma random_choices_id: "random_choices id digits 6 = ''012345''"
  by code_simp

lemma valid_datetime_example: "valid_datetime (1700000000000000 + 5 * 60 * 1000000)"
  by (simp add: valid_datetime_def datetime_min_def datetime_max_def)

text \<open>
  C1 (single use). When \<^verbatim>\<open>generate_otp\<close> has returned the code \<open>c\<close> for an address,
  an immediate \<^verbatim>\<open>verify_otp\<close> with \<open>c\<close> (same clock reading, nothing in between) returns
  \<^verbatim>\<open>True\<close> and leaves no record for the address, and a second immediate
  \<^verbatim>\<open>verify_otp\<close> with \<open>c\<close> returns \<^verbatim>\<open>False\<close>.
\<close>

theorem otp_single_use:
  assumes "generate_otp rng now store email = Inr (c, store')"
  shows "fst (verify_otp now store' email c) = True
       \<and> snd (verify_otp now store' email c) email = None
       \<and> fst (verify_otp now (snd (verify_otp now store' email c)) email c) = False"
proof -
  from assms have s': "store' = store(email \<mapsto> \<lparr>otp = c, expires = now + minutes 5\<rparr>)"
    by (auto simp: generate_otp_def datetime_add_def Let_def split: if_splits)
  show ?thesis
    by (simp add: s' verify_otp_def minutes_def)
qed

theorem otp_single_use_witness:
  "generate_otp id 0 Map.empty ''a@x.com''
     = Inr (''012345'', [''a@x.com'' \<mapsto> \<lparr>otp = ''012345'', expires = 300000000\<rparr>])
   \<and> fst (verify_otp 0 [''a@x.com'' \<mapsto> \<lparr>otp = ''012345'', expires = 300000000\<rparr>]
            ''a@x.com'' ''012345'') = True
   \<and> snd (verify_otp 0 [''a@x.com'' \<mapsto> \<lparr>otp = ''012345'', expires = 300000000\<rparr>]
            ''a@x.com'' ''012345'') ''a@x.com'' = None"
proof -
  have g: "generate_otp id 0 Map.empty ''a@x.com''
     = Inr (''012345'', [''a@x.com'' \<mapsto> \<lparr>otp = ''012345'', expires = 300000000\<rparr>])"
    by (simp add: generate_otp_def random_choices_id datetime_add_def valid_datetime_def
        datetime_min_def datetime_max_def minutes_def Let_def)
  from otp_single_use [OF g] g show ?thesis by simp
qed

text \<open>
  C2 (expiry is consumption). For an address with a stored record, \<^verbatim>\<open>verify_otp\<close>
  called at a time strictly after the record's \<^verbatim>\<open>expires\<close> returns \<^verbatim>\<open>False\<close>
  whatever the code, the stored code included, and deletes the record; in every later run
  of \<^verbatim>\<open>verify_otp\<close> calls (no \<^verbatim>\<open>generate_otp\<close> among them), each call for that
  address returns \<^verbatim>\<open>False\<close>.
\<close>

theorem expired_otp_consumed:
  assumes "store email = Some stored" and "now > expires stored"
  shows "verify_otp now store email code = (False, store(email := None))
       \<and> verify_otp now store email (otp stored) = (False, store(email := None))
       \<and> (\<forall>calls. \<forall>(call, r) \<in> set (zip calls (fst (verify_calls (store(email := None)) calls))).
             fst (snd call) = email \<longrightarrow> \<not> r)"
proof -
  have expired: "\<And>c. verify_otp now store email c = (False, store(email := None))"
    using assms by (simp add: verify_otp_def)
  have later: "\<forall>(call, r) \<in> set (zip calls (fst (verify_calls (store(email := None)) calls))).
                 fst (snd call) = email \<longrightarrow> \<not> r" for calls
    using verify_calls_absent [of "store(email := None)" email calls] by simp
  from expired later show ?thesis by blast
qed

theorem expired_otp_consumed_witness:
  "[''a@x.com'' \<mapsto> \<lparr>otp = ''482913'', expires = 300000000\<rparr>] ''a@x.com''
     = Some \<lparr>otp = ''482913'', expires = 300000000\<rparr>
   \<and> 300000001 > expires \<lparr>otp = ''482913'', expires = 300000000\<rparr>
   \<and> verify_otp 300000001 [''a@x.com'' \<mapsto> \<lparr>otp = ''482913'', expires = 300000000\<rparr>]
        ''a@x.com'' ''482913''
      = (False, [''a@x.com'' \<mapsto> \<lparr>otp = ''482913'', expires = 300000000\<rparr>](''a@x.com'' := None))
   \<and> fst (verify_calls
        ([''a@x.com'' \<mapsto> \<lparr>otp = ''482913'', expires = 300000000\<rparr>](''a@x.com'' := None))
        [(300000002, ''a@x.com'', ''482913'')]) = [False]"
proof -
  let ?r = "\<lparr>otp = ''482913'', expires = 300000000\<rparr>"
  let ?s = "[''a@x.com'' \<mapsto> ?r]"
  have stored: "?s ''a@x.com'' = Some ?r" by simp
  have late: "300000001 > expires ?r" by simp
  note w = expired_otp_consumed [of ?s "''a@x.com''" ?r 300000001 "''482913''", OF stored late]
  have first: "verify_otp 300000001 ?s ''a@x.com'' ''482913'' = (False, ?s(''a@x.com'' := None))"
    using w by (rule conjunct1)
  have later: "fst (verify_calls (?s(''a@x.com'' := None)) [(300000002, ''a@x.com'', ''482913'')])
                 = [False]"
    by (simp add: verify_otp_def)
  from stored late first later show ?thesis by blast
qed

text \<open>
  C3 (wrong code, retry). For an address with a stored record that has not expired,
  \<^verbatim>\<open>verify_otp\<close> with a code other than the stored one returns \<^verbatim>\<open>False\<close> and
  leaves the store as it was, so that a following \<^verbatim>\<open>verify_otp\<close> with the stored
  code, at any time up to \<^verbatim>\<open>expires\<close>, returns \<^verbatim>\<open>True\<close>.
\<close>

theorem wrong_code_retry:
  assumes "store email = Some stored" and "now \<le> expires stored" and "wrong \<noteq> otp stored"
  shows "verify_otp now store email wrong = (False, store)
       \<and> (\<forall>t. t \<le> expires stored \<longrightarrow>
             verify_otp t (snd (verify_otp now store email wrong)) email (otp stored)
               = (True, store(email := None)))"
proof -
  have first: "verify_otp now store email wrong = (False, store)"
    using assms by (auto simp: verify_otp_def)
  have "verify_otp t store email (otp stored) = (True, store(email := None))"
    if "t \<le> expires stored" for t
    using assms(1) that by (simp add: verify_otp_def)
  with first show ?thesis by simp
qed

theorem wrong_code_retry_witness:
  "[''a@x.com'' \<mapsto> \<lparr>otp = ''482913'', expires = 300000000\<rparr>] ''a@x.com''
     = Some \<lparr>otp = ''482913'', expires = 300000000\<rparr>
   \<and> 10 \<le> expires \<lparr>otp = ''482913'', expires = 300000000\<rparr>
   \<and> ''000000'' \<noteq> otp \<lparr>otp = ''482913'', expires = 300000000\<rparr>
   \<and> verify_otp 10 [''a@x.com'' \<mapsto> \<lparr>otp = ''482913'', expires = 300000000\<rparr>]
        ''a@x.com'' ''000000''
      = (False, [''a@x.com'' \<mapsto> \<lparr>otp = ''482913'', expires = 300000000\<rparr>])
   \<and> verify_otp 20
        (snd (verify_otp 10 [''a@x.com'' \<mapsto> \<lparr>otp = ''482913'', expires = 300000000\<rparr>]
                ''a@x.com'' ''000000''))
        ''a@x.com'' (otp \<lparr>otp = ''482913'', expires = 300000000\<rparr>)
      = (True, [''a@x.com'' \<mapsto> \<lparr>otp = ''482913'', expires = 300000000\<rparr>](''a@x.com'' := None))"
proof -
  let ?r = "\<lparr>otp = ''482913'', expires = 300000000\<rparr>"
  let ?s = "[''a@x.com'' \<mapsto> ?r]"
  have stored: "?s ''a@x.com'' = Some ?r" by simp
  have early: "10 \<le> expires ?r" by simp
  have wrong: "''000000'' \<noteq> otp ?r" by simp
  note w = wrong_code_retry [of ?s "''a@x.com''" ?r 10 "''000000''", OF stored early wrong]
  have first: "verify_otp 10 ?s ''a@x.com'' ''000000'' = (False, ?s)"
    using w by (rule conjunct1)
  have "20 \<le> expires ?r" by simp
  with w have second: "verify_otp 20 (snd (verify_otp 10 ?s ''a@x.com'' ''000000''))
                   ''a@x.com'' (otp ?r) = (True, ?s(''a@x.com'' := None))"
    by blast
  from stored early wrong first second show ?thesis by blast
qed

text \<open>
  C8 (generate contract). Whenever the clock plus five minutes is a valid
  \<^verbatim>\<open>datetime\<close>, \<^verbatim>\<open>generate_otp\<close> returns a code of exactly six characters, each an
  ASCII digit, and the store it leaves is the old store with the record of the address
  set (a previous record is replaced) to that same code and to an expiry five minutes
  (300000000 microseconds) after the clock reading.
\<close>

theorem generate_otp_contract:
  assumes "valid_datetime (now + 5 * 60 * 1000000)"
  shows "\<exists>code. generate_otp rng now store email
             = Inr (code, store(email \<mapsto> \<lparr>otp = code, expires = now + 5 * 60 * 1000000\<rparr>))
           \<and> length code = 6
           \<and> (\<forall>ch \<in> set code. ch \<in> set ''0123456789'')"
proof -
  let ?code = "random_choices rng digits 6"
  have "generate_otp rng now store email
          = Inr (?code, store(email \<mapsto> \<lparr>otp = ?code, expires = now + 5 * 60 * 1000000\<rparr>))"
    using assms by (simp add: generate_otp_def datetime_add_def minutes_def Let_def)
  moreover have "length ?code = 6"
    by (rule random_choices_length)
  moreover have "\<forall>ch \<in> set ?code. ch \<in> set ''0123456789''"
    using random_choices_member [of digits _ rng 6] by (auto simp: digits_def)
  ultimately show ?thesis by blast
qed

theorem generate_otp_contract_witness:
  "valid_datetime (1700000000000000 + 5 * 60 * 1000000)
   \<and> (\<exists>code. generate_otp id 1700000000000000
                 [''a@x.com'' \<mapsto> \<lparr>otp = ''111111'', expires = 5\<rparr>] ''a@x.com''
               = Inr (code, [''a@x.com'' \<mapsto> \<lparr>otp = ''111111'', expires = 5\<rparr>]
                              (''a@x.com'' \<mapsto> \<lparr>otp = code, expires = 1700000300000000\<rparr>))
             \<and> length code = 6
             \<and> list_all (\<lambda>ch. ch \<in> set ''0123456789'') code)"
  using generate_otp_contract [OF valid_datetime_example, of id
      "[''a@x.com'' \<mapsto> \<lparr>otp = ''111111'', expires = 5\<rparr>]" "''a@x.com''"]
    valid_datetime_example
  by (simp add: list_all_iff)

section \<open>Properties of the session tokens\<close>







lemma jws_verify_signed:
  "jws_verify (JWS [(''alg'', PStr ''HS256''), (''typ'', PStr ''JWT'')] body
       (Mac ''HS256'' key [(''alg'', PStr ''HS256''), (''typ'', PStr ''JWT'')] body))
     key [''HS256'']
   = Inr body"
  by (simp add: jws_verify_def HMAC_ALGORITHMS_def)




lemma jws_verify_error:
  "jws_verify token key algorithms = Inl e \<Longrightarrow> \<exists>msg. e = JWSError msg"
  by (auto simp: jws_verify_def split: token.splits option.splits if_splits pyval.splits)

lemma jws_verify_payload:
  "jws_verify (JWS header payload sig) key [''HS256''] = Inr p \<Longrightarrow>
     p = payload \<and> sig = Mac ''HS256'' key header payload"
  by (auto simp: jws_verify_def split: option.splits if_splits pyval.splits)


lemma verify_token_bad_signature:
  assumes "sig \<noteq> Mac ''HS256'' (SECRET_KEY env) header payload"
  shows "verify_token env now (JWS header payload sig) = Inr None"
proof (cases "jws_verify (JWS header payload sig) (SECRET_KEY env) [''HS256'']")
  case (Inl e)
  then obtain msg where "e = JWSError msg" by (auto dest: jws_verify_error)
  with Inl show ?thesis by (simp add: verify_token_def jwt_decode_def ALGORITHM_def)
next
  case (Inr p)
  with assms show ?thesis by (auto dest: jws_verify_payload)
qed

lemma SECRET_KEY_empty: "SECRET_KEY Map.empty = ''your-secret-key-change-in-production''"
  by (simp add: SECRET_KEY_def getenv_def)

lemma verify_example:
  "validate_claims now claims = Inr () \<Longrightarrow>
   verify_token Map.empty now (example_token claims) = Inr (Some claims)"
  by (simp add: verify_token_def jwt_decode_def ALGORITHM_def SECRET_KEY_empty example_token_def
      example_header_def jws_verify_signed)


lemma validate_claims_empty_sub:
  "validate_claims 1700000000500000 [(''sub'', PStr ''''), (''exp'', PInt 1700000060)] = Inr ()"
  by code_simp

lemma validate_claims_u1:
  "validate_claims 1700000000500000 [(''sub'', PStr ''u1''), (''exp'', PInt 1700000060)] = Inr ()"
  by code_simp

lemma validate_claims_no_sub:
  "validate_claims 1700000000500000 [(''exp'', PInt 1700000060)] = Inr ()"
  by code_simp

lemma create_access_token_secret:
  "SECRET_KEY env = SECRET_KEY env' \<Longrightarrow>
     create_access_token env now data ttl = create_access_token env' now data ttl"
  by (simp add: create_access_token_def split: sum.splits)

lemma verify_token_secret:
  "SECRET_KEY env = SECRET_KEY env' \<Longrightarrow> verify_token env now tok = verify_token env' now tok"
  by (simp add: verify_token_def split: sum.splits)

lemma create_access_token_signature:
  assumes "create_access_token env now data ttl = Inr (JWS header payload sig)"
  shows "sig = Mac ''HS256'' (SECRET_KEY env) header payload"
  using assms
  by (auto simp: create_access_token_def jwt_encode_def jws_sign_def ALGORITHM_def Let_def
      split: sum.splits if_splits)

lemma verify_token_signature:
  assumes "verify_token env now (JWS header payload sig) = Inr (Some claims)"
  shows "sig = Mac ''HS256'' (SECRET_KEY env) header payload"
proof (rule ccontr)
  assume "sig \<noteq> Mac ''HS256'' (SECRET_KEY env) header payload"
  then have "verify_token env now (JWS header payload sig) = Inr None"
    by (rule verify_token_bad_signature)
  with assms show False by simp
qed








text \<open>
  C7 (expiry formula). An explicitly supplied zero ttl does not give \<^verbatim>\<open>exp = now + 0\<close>:
  \<^verbatim>\<open>if expires_delta:\<close> is false for \<^verbatim>\<open>timedelta(0)\<close>, so the token is the one issued
  with no ttl at all, expiring seven days later (604800 seconds after 1700000000).
\<close>

theorem zero_ttl_gets_default_expiry:
  "create_access_token env now data (Some 0) = create_access_token env now data None
   \<and> create_access_token Map.empty 1700000000500000 [(''sub'', PStr ''u1'')] (Some 0)
     = Inr (example_token [(''sub'', PStr ''u1''), (''exp'', PInt 1700604800)])"
proof
  show "create_access_token env now data (Some 0) = create_access_token env now data None"
    by (simp add: create_access_token_def timedelta_truthy_def)
  show "create_access_token Map.empty 1700000000500000 [(''sub'', PStr ''u1'')] (Some 0)
          = Inr (example_token [(''sub'', PStr ''u1''), (''exp'', PInt 1700604800)])"
    by code_simp
qed

text \<open>
  C9 (default secret). When the environment has no \<^verbatim>\<open>SECRET_KEY\<close>, the module's secret is
  the placeholder string (loading does not fail), issuing and validating behave exactly as
  in a process configured with the placeholder as its secret, every token issued carries
  the HS256 MAC under the placeholder, and only tokens carrying that MAC are accepted.
\<close>

theorem default_secret_fallback:
  assumes "env ''SECRET_KEY'' = None"
  shows "SECRET_KEY env = ''your-secret-key-change-in-production''
       \<and> create_access_token env now data ttl
           = create_access_token [''SECRET_KEY'' \<mapsto> ''your-secret-key-change-in-production'']
               now data ttl
       \<and> verify_token env now tok
           = verify_token [''SECRET_KEY'' \<mapsto> ''your-secret-key-change-in-production''] now tok
       \<and> (create_access_token env now data ttl = Inr (JWS header payload sig) \<longrightarrow>
            sig = Mac ''HS256'' ''your-secret-key-change-in-production'' header payload)
       \<and> (verify_token env now (JWS header payload sig) = Inr (Some claims) \<longrightarrow>
            sig = Mac ''HS256'' ''your-secret-key-change-in-production'' header payload)"
proof -
  have key: "SECRET_KEY env = ''your-secret-key-change-in-production''"
    using assms by (simp add: SECRET_KEY_def getenv_def)
  have key': "SECRET_KEY [''SECRET_KEY'' \<mapsto> ''your-secret-key-change-in-production'']
                = ''your-secret-key-change-in-production''"
    by (simp add: SECRET_KEY_def getenv_def)
  have same: "SECRET_KEY env
                = SECRET_KEY [''SECRET_KEY'' \<mapsto> ''your-secret-key-change-in-production'']"
    using key key' by simp
  show ?thesis
    using key create_access_token_secret [OF same] verify_token_secret [OF same]
      create_access_token_signature [of env now data ttl header payload sig]
      verify_token_signature [of env now header payload sig claims]
    by simp
qed

theorem default_secret_fallback_witness:
  "Map.empty ''SECRET_KEY'' = (None :: string option)
   \<and> SECRET_KEY Map.empty = ''your-secret-key-change-in-production''
   \<and> create_access_token Map.empty 1700000000500000 [(''sub'', PStr ''u1'')] (Some 60000000)
       = Inr (example_token [(''sub'', PStr ''u1''), (''exp'', PInt 1700000060)])
   \<and> verify_token Map.empty 1700000000500000
        (example_token [(''sub'', PStr ''u1''), (''exp'', PInt 1700000060)])
       = Inr (Some [(''sub'', PStr ''u1''), (''exp'', PInt 1700000060)])"
proof -
  have absent: "(Map.empty :: environ) ''SECRET_KEY'' = None" by simp
  note w = default_secret_fallback [of Map.empty, OF absent]
  have key: "SECRET_KEY Map.empty = ''your-secret-key-change-in-production''"
    using w by (rule conjunct1)
  have issued: "create_access_token Map.empty 1700000000500000 [(''sub'', PStr ''u1'')]
                  (Some 60000000)
                = Inr (example_token [(''sub'', PStr ''u1''), (''exp'', PInt 1700000060)])"
    by code_simp
  have valid: "verify_token Map.empty 1700000000500000
                 (example_token [(''sub'', PStr ''u1''), (''exp'', PInt 1700000060)])
               = Inr (Some [(''sub'', PStr ''u1''), (''exp'', PInt 1700000060)])"
    using validate_claims_u1 by (rule verify_example)
  from absent key issued valid show ?thesis by blast
qed

section \<open>Properties of the resolver\<close>


lemma get_current_user_no_subject:
  "verify_token env now token = Inr (Some claims) \<Longrightarrow> map_of claims ''sub'' = None \<Longrightarrow>
     get_current_user env now db token = Inr (None, [])"
  by (simp add: get_current_user_def)

lemma get_current_user_falsy_subject:
  "verify_token env now token = Inr (Some claims) \<Longrightarrow> map_of claims ''sub'' = Some v \<Longrightarrow>
     \<not> truthy v \<Longrightarrow> get_current_user env now db token = Inr (None, [])"
  by (simp add: get_current_user_def)





text \<open>
  C10 (falsy subject). For a token that validates and whose \<^verbatim>\<open>sub\<close> is falsy,
  \<^verbatim>\<open>get_current_user\<close> returns \<^verbatim>\<open>None\<close> and performs no database operation, which is
  also its result on any token that validates to the same claims without \<^verbatim>\<open>sub\<close>.
\<close>

theorem falsy_subject_not_looked_up:
  assumes "verify_token env now token = Inr (Some claims)"
    and "map_of claims ''sub'' = Some v" and "\<not> truthy v"
  shows "get_current_user env now db token = Inr (None, [])
       \<and> (\<forall>token'. verify_token env now token' = Inr (Some (AList.delete ''sub'' claims)) \<longrightarrow>
             get_current_user env now db token' = get_current_user env now db token)"
proof -
  have falsy: "get_current_user env now db token = Inr (None, [])"
    using assms by (rule get_current_user_falsy_subject)
  have missing: "map_of (AList.delete ''sub'' claims) ''sub'' = None"
    by (simp add: delete_conv')
  have "get_current_user env now db token' = Inr (None, [])"
    if "verify_token env now token' = Inr (Some (AList.delete ''sub'' claims))" for token'
    using that missing by (rule get_current_user_no_subject)
  with falsy show ?thesis by simp
qed

theorem falsy_subject_not_looked_up_witness:
  "verify_token Map.empty 1700000000500000
       (example_token [(''sub'', PStr ''''), (''exp'', PInt 1700000060)])
     = Inr (Some [(''sub'', PStr ''''), (''exp'', PInt 1700000060)])
   \<and> map_of [(''sub'', PStr ''''), (''exp'', PInt 1700000060)] ''sub'' = Some (PStr '''')
   \<and> \<not> truthy (PStr '''')
   \<and> get_current_user Map.empty 1700000000500000 example_users
        (example_token [(''sub'', PStr ''''), (''exp'', PInt 1700000060)]) = Inr (None, [])
   \<and> get_current_user Map.empty 1700000000500000 example_users
        (example_token [(''exp'', PInt 1700000060)]) = Inr (None, [])"
proof -
  let ?claims = "[(''sub'', PStr ''''), (''exp'', PInt 1700000060)]"
  have valid: "verify_token Map.empty 1700000000500000 (example_token ?claims) = Inr (Some ?claims)"
    using validate_claims_empty_sub by (rule verify_example)
  have sub: "map_of ?claims ''sub'' = Some (PStr '''')" by simp
  have falsy: "\<not> truthy (PStr '''')" by simp
  have valid': "verify_token Map.empty 1700000000500000 (example_token [(''exp'', PInt 1700000060)])
                  = Inr (Some (AList.delete ''sub'' ?claims))"
    using validate_claims_no_sub by (simp add: verify_example)
  note w = falsy_subject_not_looked_up [of Map.empty 1700000000500000 "example_token ?claims"
      ?claims "PStr ''''" example_users, OF valid sub falsy]
  from w have a: "get_current_user Map.empty 1700000000500000 example_users
                    (example_token ?claims) = Inr (None, [])"
    by (rule conjunct1)
  from w valid' have "get_current_user Map.empty 1700000000500000 example_users
                        (example_token [(''exp'', PInt 1700000060)])
                      = get_current_user Map.empty 1700000000500000 example_users
                        (example_token ?claims)"
    by blast
  with a valid sub falsy show ?thesis by simp
qed

end
